theory Spec2Isabelle
  imports Main
begin

section \<open>Values, panics and declared methods\<close>

text \<open>
  Keys and values of both caches have the Go type \<open>interface{}\<close>.  Keys stay polymorphic
  (any comparable Go value); a value is a dynamically typed Go value, of which the caches
  themselves produce two: the string literal \<open>""\<close> and \<open>nil\<close>.
\<close>

datatype go_value = GNil | GString string | GInt int | GBool bool

text \<open>
  The two ways a call of this repository panics: the explicit
  \<open>panic("capacity must be positive")\<close> of both constructors, and the run-time panic of
  Go on reading a field through a nil pointer.
\<close>

datatype panic = CapacityMustBePositive | NilPointerDereference

text \<open>
  The method sets the two cache types declare, each method with the list of its result
  types, in the order of the source files.
\<close>

datatype go_type = TBool | TInt | TInterface | TElement | TList

definition LRU_methods :: "(string \<times> go_type list) list" where
  "LRU_methods =
     [(''Add'', [TBool]),
      (''Get'', [TInterface, TBool]),
      (''Remove'', [TBool]),
      (''removeLastElement'', [])]"

definition LFUCache_methods :: "(string \<times> go_type list) list" where
  "LFUCache_methods =
     [(''Get'', [TInterface, TBool]),
      (''Put'', []),
      (''incrementFrequency'', []),
      (''addToFrequencyList'', [TElement]),
      (''insertFrequencyNode'', [TElement]),
      (''removeFromFrequencyList'', []),
      (''getFrequencyList'', [TList]),
      (''evict'', []),
      (''Size'', [TInt]),
      (''Clear'', [])]"

section \<open>The recency cache (package lru)\<close>

text \<open>
  \<open>Item\<close> and \<open>LRU\<close> as the source declares them.  A \<open>*list.Element\<close> of the queue is
  represented by the \<open>Item\<close> it carries: items are never modified after their creation,
  and the queue of a cache built by the operations holds one element per key.  The queue
  is listed from front to back.
\<close>

record 'k Item =
  Key :: 'k
  Value :: go_value

record 'k LRU =
  lru_capacity :: int
  lru_items :: "'k \<rightharpoonup> 'k Item"
  lru_queue :: "'k Item list"

text \<open>
  \<open>list.MoveToFront(e)\<close> does nothing when \<open>e\<close> is not an element of the list;
  \<open>list.Remove(e)\<close> likewise.
\<close>

definition MoveToFront :: "'a \<Rightarrow> 'a list \<Rightarrow> 'a list" where
  "MoveToFront e q = (if e \<in> set q then e # remove1 e q else q)"

definition removeLastElement :: "'k LRU \<Rightarrow> 'k LRU" where
  "removeLastElement L =
     (case lru_queue L of
        [] \<Rightarrow> L
      | _ # _ \<Rightarrow>
          (let item = last (lru_queue L)
           in L\<lparr>lru_queue := butlast (lru_queue L),
                lru_items := (lru_items L)(Key item := None)\<rparr>))"

definition LRU_Add :: "'k \<Rightarrow> go_value \<Rightarrow> 'k LRU \<Rightarrow> bool \<times> 'k LRU" where
  "LRU_Add k v L =
     (case lru_items L k of
        Some element \<Rightarrow> (False, L\<lparr>lru_queue := MoveToFront element (lru_queue L)\<rparr>)
      | None \<Rightarrow>
          if lru_capacity L = 0 then (True, L)
          else
            (let L1 = (if int (length (lru_queue L)) = lru_capacity L
                       then removeLastElement L else L);
                 item = \<lparr>Key = k, Value = v\<rparr>
             in (True, L1\<lparr>lru_queue := item # lru_queue L1,
                          lru_items := (lru_items L1)(Key item \<mapsto> item)\<rparr>)))"

definition LRU_Get :: "'k \<Rightarrow> 'k LRU \<Rightarrow> (go_value \<times> bool) \<times> 'k LRU" where
  "LRU_Get k L =
     (case lru_items L k of
        None \<Rightarrow> ((GString '''', False), L)
      | Some element \<Rightarrow>
          ((Value element, True), L\<lparr>lru_queue := MoveToFront element (lru_queue L)\<rparr>))"

definition LRU_Remove :: "'k \<Rightarrow> 'k LRU \<Rightarrow> bool \<times> 'k LRU" where
  "LRU_Remove k L =
     (case lru_items L k of
        Some element \<Rightarrow>
          (True, L\<lparr>lru_queue := remove1 element (lru_queue L),
                   lru_items := (lru_items L)(k := None)\<rparr>)
      | None \<Rightarrow> (False, L))"

definition NewLRUCache :: "int \<Rightarrow> panic + 'k LRU" where
  "NewLRUCache n =
     (if n \<le> 0 then Inl CapacityMustBePositive
      else Inr \<lparr>lru_capacity = n, lru_items = Map.empty, lru_queue = []\<rparr>)"

text \<open>
  The type \<open>LRU\<close> has no size method; the number of entries it holds is the length of its
  queue, which is what \<open>Add\<close> compares with the capacity.
\<close>

definition lru_size :: "'k LRU \<Rightarrow> int" where
  "lru_size L = int (length (lru_queue L))"




text \<open>
  The representation invariant of the recency cache: the index and the queue hold the
  same elements, one per key, each indexed under its own key.
\<close>

definition lru_inv :: "'k LRU \<Rightarrow> bool" where
  "lru_inv L \<longleftrightarrow>
     distinct (map Key (lru_queue L)) \<and>
     (\<forall>k e. lru_items L k = Some e \<longleftrightarrow> (e \<in> set (lru_queue L) \<and> Key e = k))"

section \<open>The frequency cache (package lfu)\<close>

text \<open>
  \<open>CacheItem\<close>, \<open>FrequencyNode\<close> and \<open>LFUCache\<close> as the source declares them.  The cache
  owns one \<open>CacheItem\<close> per key, reached through pointers from the index \<open>items\<close> and from
  the element lists of the frequency nodes.  Here \<open>items\<close> is the store of these objects,
  addressed by key, and an element of a frequency node's list is the key of the item it
  carries, so that a write to an item is seen from both sides, as through the pointers.
  In the same way \<open>freqLists\<close>, which maps a count to the element of \<open>freqNodes\<close> holding
  the node of that count, is the set of its keys, and following its pointer is finding
  the node of that count in \<open>freqNodes\<close>.  Lists are given from front to back.  Go's \<open>int\<close>
  is taken as unbounded: a count grows by one per call.
\<close>

record 'k CacheItem =
  key :: 'k
  item_value :: go_value
  frequency :: int

record 'k FrequencyNode =
  freq :: int
  elements :: "'k list"

record 'k LFUCache =
  capacity :: int
  minFreq :: int
  items :: "'k \<rightharpoonup> 'k CacheItem"
  freqLists :: "int set"
  freqNodes :: "'k FrequencyNode list"

definition NewLFUCache :: "int \<Rightarrow> panic + 'k LFUCache" where
  "NewLFUCache n =
     (if n \<le> 0 then Inl CapacityMustBePositive
      else Inr \<lparr>capacity = n, minFreq = 0, items = Map.empty, freqLists = {},
                freqNodes = []\<rparr>)"

text \<open>The lookup \<open>c.freqLists[freq]\<close> followed by reading the node it points to.\<close>

definition freqListsAt :: "int \<Rightarrow> 'k LFUCache \<Rightarrow> 'k FrequencyNode option" where
  "freqListsAt f c =
     (if f \<in> freqLists c then find (\<lambda>n. freq n = f) (freqNodes c) else None)"

text \<open>
  \<open>insertFrequencyNode\<close>: the search loop over \<open>freqNodes\<close>, which returns the node
  already there when one has the count, inserts before the first node of a larger count,
  and appends otherwise.
\<close>

fun insertLoop :: "int \<Rightarrow> 'k FrequencyNode \<Rightarrow> 'k FrequencyNode list \<Rightarrow> 'k FrequencyNode list" where
  "insertLoop f n [] = [n]"
| "insertLoop f n (e # es) =
     (if f = freq e then e # es
      else if f < freq e then n # e # es
      else e # insertLoop f n es)"

definition insertFrequencyNode :: "int \<Rightarrow> 'k FrequencyNode \<Rightarrow> 'k LFUCache \<Rightarrow> 'k LFUCache" where
  "insertFrequencyNode f n c =
     (if length (freqNodes c) = 0 \<or> f < freq (hd (freqNodes c))
      then c\<lparr>freqNodes := n # freqNodes c\<rparr>
      else c\<lparr>freqNodes := insertLoop f n (freqNodes c)\<rparr>)"

text \<open>\<open>PushBack\<close> of an item on the element list of the node of count \<open>f\<close>.\<close>

definition pushBackAt :: "int \<Rightarrow> 'k \<Rightarrow> 'k FrequencyNode list \<Rightarrow> 'k FrequencyNode list" where
  "pushBackAt f k ns =
     map (\<lambda>n. if freq n = f then n\<lparr>elements := elements n @ [k]\<rparr> else n) ns"

definition addToFrequencyList :: "int \<Rightarrow> 'k \<Rightarrow> 'k LFUCache \<Rightarrow> 'k LFUCache" where
  "addToFrequencyList f k c =
     (let c1 = (if f \<in> freqLists c then c
                else (insertFrequencyNode f \<lparr>freq = f, elements = []\<rparr> c)
                       \<lparr>freqLists := insert f (freqLists c)\<rparr>)
      in c1\<lparr>freqNodes := pushBackAt f k (freqNodes c1)\<rparr>)"

definition removeFromFrequencyList :: "int \<Rightarrow> 'k \<Rightarrow> 'k LFUCache \<Rightarrow> 'k LFUCache" where
  "removeFromFrequencyList f k c =
     (case freqListsAt f c of
        None \<Rightarrow> c
      | Some freqNode \<Rightarrow>
          (let es = remove1 k (elements freqNode)
           in if length es = 0
              then c\<lparr>freqNodes := filter (\<lambda>n. freq n \<noteq> f) (freqNodes c),
                     freqLists := freqLists c - {f}\<rparr>
              else c\<lparr>freqNodes :=
                        map (\<lambda>n. if freq n = f then n\<lparr>elements := es\<rparr> else n)
                          (freqNodes c)\<rparr>))"

text \<open>\<open>getFrequencyList\<close> returns nil, here \<open>None\<close>, for a count that \<open>freqLists\<close> lacks.\<close>

definition getFrequencyList :: "int \<Rightarrow> 'k LFUCache \<Rightarrow> 'k list option" where
  "getFrequencyList f c = map_option elements (freqListsAt f c)"

text \<open>
  \<open>incrementFrequency\<close> takes the element of the item; here its key.  Its last statement
  calls \<open>Len()\<close> on the result of \<open>getFrequencyList(oldFreq)\<close> whenever \<open>oldFreq\<close> is
  \<open>minFreq\<close>, and \<open>Len\<close> reads a field of its receiver: on nil the call panics.
\<close>

definition incrementFrequency :: "'k \<Rightarrow> 'k LFUCache \<Rightarrow> panic + 'k LFUCache" where
  "incrementFrequency k c =
     (case items c k of
        None \<Rightarrow> Inl NilPointerDereference
      | Some item \<Rightarrow>
          (let oldFreq = frequency item;
               newFreq = oldFreq + 1;
               c1 = removeFromFrequencyList oldFreq k c;
               c2 = addToFrequencyList newFreq k c1;
               c3 = c2\<lparr>items := (items c2)(key item \<mapsto> item\<lparr>frequency := newFreq\<rparr>)\<rparr>
           in if oldFreq = minFreq c3
              then (case getFrequencyList oldFreq c3 of
                      None \<Rightarrow> Inl NilPointerDereference
                    | Some l \<Rightarrow>
                        if length l = 0 then Inr (c3\<lparr>minFreq := newFreq\<rparr>) else Inr c3)
              else Inr c3))"

definition evict :: "'k LFUCache \<Rightarrow> 'k LFUCache" where
  "evict c =
     (case freqNodes c of
        [] \<Rightarrow> c
      | minFreqNode # rest \<Rightarrow>
          (case elements minFreqNode of
             [] \<Rightarrow> c
           | lruElem # es \<Rightarrow>
               (let c1 = c\<lparr>freqNodes := minFreqNode\<lparr>elements := es\<rparr> # rest,
                           items := (items c)(lruElem := None)\<rparr>
                in if length es = 0
                   then c1\<lparr>freqNodes := rest,
                           freqLists := freqLists c1 - {freq minFreqNode}\<rparr>
                   else c1)))"

definition LFU_Get :: "'k \<Rightarrow> 'k LFUCache \<Rightarrow> panic + ((go_value \<times> bool) \<times> 'k LFUCache)" where
  "LFU_Get k c =
     (case items c k of
        Some item \<Rightarrow>
          (case incrementFrequency k c of
             Inl p \<Rightarrow> Inl p
           | Inr c' \<Rightarrow> Inr ((item_value item, True), c'))
      | None \<Rightarrow> Inr ((GNil, False), c))"

definition Size :: "'k LFUCache \<Rightarrow> int" where
  "Size c = int (card (dom (items c)))"

definition LFU_Put :: "'k \<Rightarrow> go_value \<Rightarrow> 'k LFUCache \<Rightarrow> panic + 'k LFUCache" where
  "LFU_Put k v c =
     (if capacity c = 0 then Inr c
      else
        (case items c k of
           Some item \<Rightarrow>
             incrementFrequency k (c\<lparr>items := (items c)(k \<mapsto> item\<lparr>item_value := v\<rparr>)\<rparr>)
         | None \<Rightarrow>
             (let c1 = (if Size c \<ge> capacity c then evict c else c);
                  item = \<lparr>key = k, item_value = v, frequency = 1\<rparr>;
                  c2 = addToFrequencyList 1 k c1
              in Inr (c2\<lparr>items := (items c2)(k \<mapsto> item), minFreq := 1\<rparr>))))"

definition Clear :: "'k LFUCache \<Rightarrow> 'k LFUCache" where
  "Clear c = c\<lparr>items := Map.empty, freqLists := {}, freqNodes := [], minFreq := 0\<rparr>"

datatype 'k lfu_op = LfuPut 'k go_value | LfuGet 'k | LfuClear

fun lfu_step :: "'k lfu_op \<Rightarrow> 'k LFUCache \<Rightarrow> panic + 'k LFUCache" where
  "lfu_step (LfuPut k v) c = LFU_Put k v c"
| "lfu_step (LfuGet k) c = map_sum id snd (LFU_Get k c)"
| "lfu_step LfuClear c = Inr (Clear c)"

text \<open>A panic ends a run.\<close>

fun lfu_run :: "'k lfu_op list \<Rightarrow> 'k LFUCache \<Rightarrow> panic + 'k LFUCache" where
  "lfu_run [] c = Inr c"
| "lfu_run (x # xs) c =
     (case lfu_step x c of Inl p \<Rightarrow> Inl p | Inr c' \<Rightarrow> lfu_run xs c')"

text \<open>
  The representation invariant of the frequency cache.  On the nodes: counts strictly
  increase along \<open>freqNodes\<close>, no node is empty, \<open>freqLists\<close> indexes exactly the counts
  of the nodes, and no element occurs twice.  On the whole cache: the keys of the index
  are the keys on the nodes, and each item lies on the node of its own count.
\<close>

definition node_keys :: "'k FrequencyNode list \<Rightarrow> 'k list" where
  "node_keys ns = concat (map elements ns)"


definition on_node :: "'k FrequencyNode list \<Rightarrow> 'k \<Rightarrow> int \<Rightarrow> bool" where
  "on_node ns k f \<longleftrightarrow> (\<exists>n \<in> set ns. freq n = f \<and> k \<in> set (elements n))"





definition lfu_from :: "int \<Rightarrow> 'k lfu_op list \<Rightarrow> panic + 'k LFUCache" where
  "lfu_from n ops = (case NewLFUCache n of Inl p \<Rightarrow> Inl p | Inr c \<Rightarrow> lfu_run ops c)"

section \<open>The recency cache keeps its invariant\<close>


lemma lru_invI:
  assumes "distinct (map Key (lru_queue L))"
    and "\<And>k e. lru_items L k = Some e \<Longrightarrow> e \<in> set (lru_queue L) \<and> Key e = k"
    and "\<And>e. e \<in> set (lru_queue L) \<Longrightarrow> lru_items L (Key e) = Some e"
  shows "lru_inv L"
  unfolding lru_inv_def using assms by blast

lemma lru_inv_distinct: "lru_inv L \<Longrightarrow> distinct (map Key (lru_queue L))"
  by (simp add: lru_inv_def)

lemma lru_inv_lookup:
  "lru_inv L \<Longrightarrow> lru_items L k = Some e \<Longrightarrow> e \<in> set (lru_queue L) \<and> Key e = k"
  by (simp add: lru_inv_def)

lemma lru_inv_indexed:
  "lru_inv L \<Longrightarrow> e \<in> set (lru_queue L) \<Longrightarrow> lru_items L (Key e) = Some e"
  by (simp add: lru_inv_def)



lemma distinct_map_remove1:
  "distinct (map f q) \<Longrightarrow> distinct (map f (remove1 e q))"
proof (induction q)
  case Nil
  then show ?case by simp
next
  case (Cons a q)
  have "f a \<notin> f ` set (remove1 e q)"
    using Cons.prems set_remove1_subset [of e q] by auto
  with Cons show ?case by simp
qed

lemma remove1_key_fresh:
  "distinct (map f q) \<Longrightarrow> e \<in> set q \<Longrightarrow> f e \<notin> f ` set (remove1 e q)"
proof (induction q)
  case Nil
  then show ?case by simp
next
  case (Cons a q)
  show ?case
  proof (cases "a = e")
    case True
    with Cons.prems show ?thesis by simp
  next
    case False
    with Cons.prems have "e \<in> set q" "f a \<noteq> f e" by auto
    with Cons False show ?thesis by simp
  qed
qed



lemma lru_inv_Remove: "lru_inv L \<Longrightarrow> lru_inv (snd (LRU_Remove k L))"
proof (cases "lru_items L k")
  case None
  assume "lru_inv L"
  with None show ?thesis by (simp add: LRU_Remove_def)
next
  case (Some e)
  assume inv: "lru_inv L"
  let ?q = "remove1 e (lru_queue L)"
  let ?L = "L\<lparr>lru_queue := ?q, lru_items := (lru_items L)(k := None)\<rparr>"
  from inv Some have mem: "e \<in> set (lru_queue L)" and ke: "Key e = k"
    by (auto dest: lru_inv_lookup)
  have d: "distinct (map Key (lru_queue L))" using inv by (rule lru_inv_distinct)
  have fresh: "k \<notin> Key ` set ?q" using remove1_key_fresh [OF d mem] ke by simp
  have sub: "set ?q \<subseteq> set (lru_queue L)" by (rule set_remove1_subset)
  have "lru_inv ?L"
  proof (rule lru_invI)
    show "distinct (map Key (lru_queue ?L))" using d by (simp add: distinct_map_remove1)
  next
    fix k' x
    assume "lru_items ?L k' = Some x"
    then have k': "k' \<noteq> k" and x: "lru_items L k' = Some x" by (auto split: if_splits)
    from lru_inv_lookup [OF inv x] have "x \<in> set (lru_queue L)" "Key x = k'" by auto
    moreover from this k' ke have "x \<noteq> e" by auto
    ultimately show "x \<in> set (lru_queue ?L) \<and> Key x = k'" by (simp add: in_set_remove1)
  next
    fix x
    assume "x \<in> set (lru_queue ?L)"
    then have x: "x \<in> set ?q" by simp
    with fresh have "Key x \<noteq> k" by auto
    moreover from x sub have "lru_items L (Key x) = Some x"
      using lru_inv_indexed [OF inv] by auto
    ultimately show "lru_items ?L (Key x) = Some x" by simp
  qed
  with Some show ?thesis by (simp add: LRU_Remove_def)
qed







subsection \<open>The queue never outgrows the capacity\<close>









section \<open>The frequency cache keeps its invariant\<close>





subsection \<open>Inserting a node in count order\<close>



lemma insertLoop_keys:
  "elements n = [] \<Longrightarrow> node_keys (insertLoop f n ns) = node_keys ns"
  by (induction ns) (auto simp: node_keys_def)


subsection \<open>Which key lies on the node of which count\<close>



lemma on_node_freq: "on_node ns k g \<Longrightarrow> g \<in> freq ` set ns"
  by (auto simp: on_node_def)








subsection \<open>Appending to the element list of a node\<close>





subsection \<open>Adding a key to the node of a count\<close>



subsection \<open>Removing a key from the node of its count\<close>











subsection \<open>Promotion: when it panics and what it leaves otherwise\<close>



subsection \<open>Eviction takes the head of the front node\<close>




lemma evict_empty: "freqNodes c = [] \<Longrightarrow> evict c = c"
  by (simp add: evict_def)





subsection \<open>The operations keep the invariant and the bound\<close>














section \<open>The claims\<close>

text \<open>The equations that evaluate a run on a concrete cache.\<close>

lemmas lfu_eval = lfu_from_def NewLFUCache_def LFU_Put_def LFU_Get_def incrementFrequency_def
  removeFromFrequencyList_def addToFrequencyList_def insertFrequencyNode_def
  getFrequencyList_def freqListsAt_def evict_def Size_def pushBackAt_def Let_def


subsection \<open>C2: a touch of the only entry of the minimum count\<close>

text \<open>
  C2 (code bug).  The claim: every touch of an entry of count \<open>c\<close> moves it to the tail of
  the node of count \<open>c + 1\<close>, destroys the node of \<open>c\<close> if it became empty, sets \<open>minFreq\<close>
  to \<open>c + 1\<close> if \<open>c\<close> was \<open>minFreq\<close>, and completes normally.  In the code the last
  statement of \<open>incrementFrequency\<close> asks \<open>getFrequencyList(oldFreq)\<close> for the length of
  the old list after \<open>removeFromFrequencyList\<close> has deleted it from \<open>freqLists\<close>, so the
  call receives nil and panics.  On a cache of capacity 2, after \<open>Put("key1", "value1")\<close>
  the call \<open>Get("key1")\<close> panics with a nil pointer dereference.
\<close>

theorem promotion_of_sole_minimum_panics:
  "lfu_from 2 [LfuPut ''key1'' (GString ''value1''), LfuGet ''key1''] =
     Inl NilPointerDereference"
  by (simp add: lfu_eval)

subsection \<open>C5: the recency cache of capacity 0\<close>

text \<open>
  C5 (code bug).  The claim: constructing the recency cache with capacity 0 succeeds, and
  on that instance a put returns true and stores nothing.  \<open>NewLRUCache(0)\<close> panics with
  "capacity must be positive", although \<open>Add\<close> has a branch for a cache of capacity 0,
  which returns true and leaves the cache as it is.
\<close>

theorem NewLRUCache_rejects_zero:
  "NewLRUCache 0 = Inl CapacityMustBePositive \<and>
   LRU_Add k v \<lparr>lru_capacity = 0, lru_items = Map.empty, lru_queue = []\<rparr> =
     (True, \<lparr>lru_capacity = 0, lru_items = Map.empty, lru_queue = []\<rparr>)"
  by (simp add: NewLRUCache_def LRU_Add_def)

subsection \<open>C10: the value returned on a miss\<close>

text \<open>
  C10.  On a miss the recency cache returns the empty string and the frequency cache
  returns nil, both with the flag false and the cache unchanged; the two values differ.
\<close>

theorem get_miss_zero_values:
  "(lru_items L k = None \<longrightarrow> LRU_Get k L = ((GString '''', False), L)) \<and>
   (items c k' = None \<longrightarrow> LFU_Get k' c = Inr ((GNil, False), c)) \<and>
   GString '''' \<noteq> GNil"
  by (simp add: LRU_Get_def LFU_Get_def)

text \<open>
  Witness for C10: a recency cache holding an integer under \<open>"a"\<close> and an empty frequency
  cache, both asked for \<open>"unknown"\<close>.
\<close>

theorem get_miss_zero_values_witness:
  "lru_items \<lparr>lru_capacity = 2, lru_items = [''a'' \<mapsto> \<lparr>Key = ''a'', Value = GInt 7\<rparr>],
       lru_queue = [\<lparr>Key = ''a'', Value = GInt 7\<rparr>]\<rparr> ''unknown'' = None \<and>
   LRU_Get ''unknown''
     \<lparr>lru_capacity = 2, lru_items = [''a'' \<mapsto> \<lparr>Key = ''a'', Value = GInt 7\<rparr>],
       lru_queue = [\<lparr>Key = ''a'', Value = GInt 7\<rparr>]\<rparr> =
     ((GString '''', False),
      \<lparr>lru_capacity = 2, lru_items = [''a'' \<mapsto> \<lparr>Key = ''a'', Value = GInt 7\<rparr>],
        lru_queue = [\<lparr>Key = ''a'', Value = GInt 7\<rparr>]\<rparr>) \<and>
   items \<lparr>capacity = 2, minFreq = 0, items = Map.empty, freqLists = {}, freqNodes = []\<rparr>
     ''unknown'' = None \<and>
   LFU_Get ''unknown''
     \<lparr>capacity = 2, minFreq = 0, items = Map.empty, freqLists = {}, freqNodes = []\<rparr> =
     Inr ((GNil, False),
          \<lparr>capacity = 2, minFreq = 0, items = Map.empty, freqLists = {}, freqNodes = []\<rparr>)"
  using get_miss_zero_values [of
      "\<lparr>lru_capacity = 2, lru_items = [''a'' \<mapsto> \<lparr>Key = ''a'', Value = GInt 7\<rparr>],
        lru_queue = [\<lparr>Key = ''a'', Value = GInt 7\<rparr>]\<rparr>" "''unknown''"
      "\<lparr>capacity = 2, minFreq = 0, items = Map.empty, freqLists = {}, freqNodes = []\<rparr>"
      "''unknown''"]
  by simp

subsection \<open>C8: the minimum count after an eviction and an insertion\<close>




subsection \<open>C9: a put of a key the recency cache already holds\<close>



subsection \<open>C6: removing a key\<close>

text \<open>
  C6 (corrected).  The recency cache has a method \<open>Remove\<close> with one boolean result: on
  an absent key it returns false and leaves the cache as it is; on a present key it
  returns true, unlinks the entry from the queue and deletes the key from the index; in
  both cases the key is absent afterwards, so that a second call returns false and
  changes nothing.  On a cache that satisfies the invariant the key is gone from the
  queue as well and the size is one less when the key was present.
\<close>

theorem lru_remove_contract:
  "(lru_items L k = None \<longrightarrow> LRU_Remove k L = (False, L)) \<and>
   (\<forall>e. lru_items L k = Some e \<longrightarrow>
      LRU_Remove k L =
        (True, L\<lparr>lru_queue := remove1 e (lru_queue L), lru_items := (lru_items L)(k := None)\<rparr>)) \<and>
   lru_items (snd (LRU_Remove k L)) k = None \<and>
   LRU_Remove k (snd (LRU_Remove k L)) = (False, snd (LRU_Remove k L)) \<and>
   (lru_inv L \<longrightarrow> lru_inv (snd (LRU_Remove k L)) \<and>
      k \<notin> Key ` set (lru_queue (snd (LRU_Remove k L))) \<and>
      (lru_items L k \<noteq> None \<longrightarrow> lru_size (snd (LRU_Remove k L)) = lru_size L - 1)) \<and>
   map_of LRU_methods ''Remove'' = Some [TBool]"
proof -
  have a: "lru_items (snd (LRU_Remove k L)) k = None"
    by (cases "lru_items L k") (simp_all add: LRU_Remove_def)
  then have b: "LRU_Remove k (snd (LRU_Remove k L)) = (False, snd (LRU_Remove k L))"
    by (simp add: LRU_Remove_def)
  have c: "k \<notin> Key ` set (lru_queue (snd (LRU_Remove k L)))" if inv: "lru_inv L"
  proof
    assume "k \<in> Key ` set (lru_queue (snd (LRU_Remove k L)))"
    then obtain x where "x \<in> set (lru_queue (snd (LRU_Remove k L)))" "Key x = k" by auto
    with lru_inv_indexed [OF lru_inv_Remove [OF inv, of k]] a show False by auto
  qed
  have d: "lru_size (snd (LRU_Remove k L)) = lru_size L - 1"
    if inv: "lru_inv L" and "lru_items L k \<noteq> None"
  proof -
    from that obtain e where e: "lru_items L k = Some e" by auto
    from lru_inv_lookup [OF inv e] have "e \<in> set (lru_queue L)" by simp
    then obtain m where "length (lru_queue L) = Suc m"
      using length_pos_if_in_set [of e "lru_queue L"] by (cases "length (lru_queue L)") auto
    with e \<open>e \<in> set (lru_queue L)\<close> show ?thesis
      by (simp add: LRU_Remove_def lru_size_def length_remove1)
  qed
  show ?thesis
    using a b c d lru_inv_Remove [of L k]
    by (simp add: LRU_Remove_def LRU_methods_def)
qed

text \<open>
  Witness for C6: removing \<open>"key1"\<close> from the cache that holds only it, and from the
  empty cache.
\<close>

theorem lru_remove_contract_witness:
  "LRU_Remove ''key1''
     \<lparr>lru_capacity = 2,
      lru_items = [''key1'' \<mapsto> \<lparr>Key = ''key1'', Value = GString ''value1''\<rparr>],
      lru_queue = [\<lparr>Key = ''key1'', Value = GString ''value1''\<rparr>]\<rparr> =
     (True, \<lparr>lru_capacity = 2, lru_items = Map.empty, lru_queue = []\<rparr>) \<and>
   LRU_Remove ''key1'' \<lparr>lru_capacity = 2, lru_items = Map.empty, lru_queue = []\<rparr> =
     (False, \<lparr>lru_capacity = 2, lru_items = Map.empty, lru_queue = []\<rparr>) \<and>
   lru_inv \<lparr>lru_capacity = 2,
      lru_items = [''key1'' \<mapsto> \<lparr>Key = ''key1'', Value = GString ''value1''\<rparr>],
      lru_queue = [\<lparr>Key = ''key1'', Value = GString ''value1''\<rparr>]\<rparr> \<and>
   lru_size (snd (LRU_Remove ''key1''
     \<lparr>lru_capacity = 2,
      lru_items = [''key1'' \<mapsto> \<lparr>Key = ''key1'', Value = GString ''value1''\<rparr>],
      lru_queue = [\<lparr>Key = ''key1'', Value = GString ''value1''\<rparr>]\<rparr>)) = 0"
proof -
  let ?i = "\<lparr>Key = ''key1'', Value = GString ''value1''\<rparr>"
  let ?L = "\<lparr>lru_capacity = 2, lru_items = [''key1'' \<mapsto> ?i], lru_queue = [?i]\<rparr>"
  let ?E = "\<lparr>lru_capacity = 2, lru_items = (Map.empty :: string \<rightharpoonup> string Item), lru_queue = []\<rparr>"
  have inv: "lru_inv ?L" by (auto simp: lru_inv_def)
  have sz: "lru_size ?L = 1" by (simp add: lru_size_def)
  from lru_remove_contract [of ?L "''key1''"] lru_remove_contract [of ?E "''key1''"] inv sz
  show ?thesis by (simp add: lru_size_def)
qed

text \<open>
  Counterexample to C6 as stated: the frequency cache declares no method \<open>Remove\<close>.
\<close>

theorem lfu_has_no_remove:
  "map_of LFUCache_methods ''Remove'' = None"
  by (simp add: LFUCache_methods_def)

subsection \<open>What the operations leave unchanged\<close>













subsection \<open>C4: the size never exceeds the capacity\<close>



subsection \<open>C1: a put followed by a get of the same key\<close>




subsection \<open>C7: what a put returns\<close>




subsection \<open>C3: which entry an eviction removes\<close>



end
